theory Spec2Isabelle
  imports Complex_Main
begin

section \<open>Data model\<close>

text \<open>
  The keys of a batch are members of the two enums \<open>BatchKey\<close> and \<open>NWPBatchKey\<close> of
  \<open>ocf_datapipes.utils.consts\<close>. A member is modelled by its enum class and its
  member name: two members are equal exactly when both agree, as for Python enums.
\<close>

datatype batch_key = BatchKey string | NWPBatchKey string

fun name :: "batch_key \<Rightarrow> string" where
  "name (BatchKey s) = s"
| "name (NWPBatchKey s) = s"

text \<open>Python's \<open>str.endswith\<close>.\<close>

definition endswith :: "string \<Rightarrow> string \<Rightarrow> bool" where
  "endswith s suf = (length suf \<le> length s \<and> drop (length s - length suf) s = suf)"

text \<open>The exceptions that the modelled code can raise.\<close>

datatype error =
    IndexError | KeyError | ValueError | StopIteration | NameError
  | AttributeError | TypeError | ZeroDivisionError

text \<open>
  The class name of an exception (\<open>type(e).__name__\<close>), and the class name of the
  exception that a call raised, if it raised one.
\<close>

fun exception_name :: "error \<Rightarrow> string" where
  "exception_name IndexError = ''IndexError''"
| "exception_name KeyError = ''KeyError''"
| "exception_name ValueError = ''ValueError''"
| "exception_name StopIteration = ''StopIteration''"
| "exception_name NameError = ''NameError''"
| "exception_name AttributeError = ''AttributeError''"
| "exception_name TypeError = ''TypeError''"
| "exception_name ZeroDivisionError = ''ZeroDivisionError''"

fun raised :: "error + 'a \<Rightarrow> string option" where
  "raised (Inl e) = Some (exception_name e)"
| "raised (Inr v) = None"

text \<open>
  A numpy array: its shape and its elements in row-major order. A well-formed array
  holds as many elements as the product of its shape.
\<close>

datatype 'a ndarray = NDArray (shape: "nat list") (data: "'a list")

definition wf_ndarray :: "'a ndarray \<Rightarrow> bool" where
  "wf_ndarray a = (length (data a) = prod_list (shape a))"

text \<open>\<open>a.shape[0]\<close>: the shape of a 0-d array is the empty tuple.\<close>

definition shape0 :: "'a ndarray \<Rightarrow> error + nat" where
  "shape0 a = (case shape a of [] \<Rightarrow> Inl IndexError | n # _ \<Rightarrow> Inr n)"

text \<open>\<open>a[i]\<close> for a non-negative integer \<open>i\<close>: the \<open>i\<close>-th slice along the leading axis.\<close>

definition ndarray_getitem :: "'a ndarray \<Rightarrow> nat \<Rightarrow> error + 'a ndarray" where
  "ndarray_getitem a i =
     (case shape a of
        [] \<Rightarrow> Inl IndexError
      | n # s \<Rightarrow>
          if i < n
          then Inr (NDArray s (take (prod_list s) (drop (i * prod_list s) (data a))))
          else Inl IndexError)"

text \<open>
  \<open>np.stack\<close> along a new leading axis: it needs at least one array, and all arrays
  must have the same shape.
\<close>

definition np_stack :: "'a ndarray list \<Rightarrow> error + 'a ndarray" where
  "np_stack arrays =
     (case arrays of
        [] \<Rightarrow> Inl ValueError
      | a # as \<Rightarrow>
          if list_all (\<lambda>b. shape b = shape a) as
          then Inr (NDArray (length arrays # shape a) (concat (map data arrays)))
          else Inl ValueError)"

text \<open>
  A dict is an association list in insertion order; a lookup of a missing key raises
  \<open>KeyError\<close>.
\<close>

definition dict_get :: "('k \<times> 'v) list \<Rightarrow> 'k \<Rightarrow> error + 'v" where
  "dict_get d k = (case map_of d k of None \<Rightarrow> Inl KeyError | Some v \<Rightarrow> Inr v)"

text \<open>
  \<open>NWPNumpyBatch\<close>: the fields of one NWP source. \<open>NumpyBatch\<close>: an example or a batch.
  Its items are arrays, except the item under \<open>BatchKey.nwp\<close>, which maps source
  identifiers to an \<open>NWPNumpyBatch\<close>. \<open>Field (BatchKey ''nwp'') a\<close> is an ill-typed
  item: an array stored under \<open>BatchKey.nwp\<close>.
\<close>

type_synonym 'a NWPNumpyBatch = "(batch_key \<times> 'a ndarray) list"

datatype 'a item = Field batch_key "'a ndarray" | Nwp "(string \<times> 'a NWPNumpyBatch) list"

type_synonym 'a NumpyBatch = "'a item list"

fun item_key :: "'a item \<Rightarrow> batch_key" where
  "item_key (Field k a) = k"
| "item_key (Nwp srcs) = BatchKey ''nwp''"

definition keys :: "'a NumpyBatch \<Rightarrow> batch_key list" where
  "keys d = map item_key d"

text \<open>\<open>d[k]\<close> on an example or batch.\<close>

definition batch_get :: "'a NumpyBatch \<Rightarrow> batch_key \<Rightarrow> error + 'a item" where
  "batch_get d k =
     (case find (\<lambda>e. item_key e = k) d of None \<Rightarrow> Inl KeyError | Some e \<Rightarrow> Inr e)"

text \<open>
  \<open>d[k]\<close> for a key other than \<open>BatchKey.nwp\<close>, whose item is an array. The last case
  cannot occur for such a key.
\<close>

definition array_get :: "'a NumpyBatch \<Rightarrow> batch_key \<Rightarrow> error + 'a ndarray" where
  "array_get d k =
     (case batch_get d k of
        Inl e \<Rightarrow> Inl e
      | Inr (Field _ a) \<Rightarrow> Inr a
      | Inr (Nwp _) \<Rightarrow> Inl TypeError)"

text \<open>
  \<open>d[BatchKey.nwp][nwp_source][nwp_batch_key]\<close>. Indexing an array with a string
  raises \<open>IndexError\<close>.
\<close>

definition nwp_get :: "'a NumpyBatch \<Rightarrow> string \<Rightarrow> batch_key \<Rightarrow> error + 'a ndarray" where
  "nwp_get d nwp_source nwp_batch_key =
     (case batch_get d (BatchKey ''nwp'') of
        Inl e \<Rightarrow> Inl e
      | Inr (Field _ _) \<Rightarrow> Inl IndexError
      | Inr (Nwp srcs) \<Rightarrow>
          (case dict_get srcs nwp_source of
             Inl e \<Rightarrow> Inl e
           | Inr fields \<Rightarrow> dict_get fields nwp_batch_key))"

text \<open>
  A \<open>for\<close> loop or comprehension that builds a list and stops at the first exception.
\<close>

fun traverse :: "('a \<Rightarrow> error + 'b) \<Rightarrow> 'a list \<Rightarrow> error + 'b list" where
  "traverse f [] = Inr []"
| "traverse f (x # xs) =
     (case f x of
        Inl e \<Rightarrow> Inl e
      | Inr y \<Rightarrow> (case traverse f xs of Inl e \<Rightarrow> Inl e | Inr ys \<Rightarrow> Inr (y # ys)))"

section \<open>Key classification and the stack engine (\<open>batch/merge_numpy_examples_to_batch.py\<close>)\<close>

definition key_is_constant :: "batch_key \<Rightarrow> bool" where
  "key_is_constant batch_key =
     (endswith (name batch_key) ''t0_idx'' \<or> batch_key = NWPBatchKey ''nwp_channel_names'')"

text \<open>
  \<open>stack_data_list\<close>: a constant key takes \<open>data_list[0]\<close>; any other key stacks. The
  handler around \<open>np.stack\<close> logs and re-raises the exception it caught.
\<close>

definition stack_data_list :: "'a ndarray list \<Rightarrow> batch_key \<Rightarrow> error + 'a ndarray" where
  "stack_data_list data_list batch_key =
     (if key_is_constant batch_key
      then (case data_list of [] \<Rightarrow> Inl IndexError | x # _ \<Rightarrow> Inr x)
      else np_stack data_list)"

text \<open>The records that one call of \<open>stack_data_list\<close> writes to the module's logger.\<close>

datatype log_record =
    Debug_could_not_stack batch_key
  | Debug_shapes "nat list list"
  | Error_exception error

definition stack_data_list_log :: "'a ndarray list \<Rightarrow> batch_key \<Rightarrow> log_record list" where
  "stack_data_list_log data_list batch_key =
     (if key_is_constant batch_key then []
      else (case np_stack data_list of
              Inr _ \<Rightarrow> []
            | Inl e \<Rightarrow>
                [Debug_could_not_stack batch_key, Debug_shapes (map shape data_list),
                 Error_exception e]))"

definition extract_data_from_batch ::
    "'a ndarray \<Rightarrow> batch_key \<Rightarrow> nat \<Rightarrow> error + 'a ndarray" where
  "extract_data_from_batch d batch_key index_num =
     (if key_is_constant batch_key then Inr d else ndarray_getitem d index_num)"

text \<open>
  The body of the loop over \<open>batch_keys\<close> in \<open>stack_np_examples_into_batch\<close>: the item
  of the batch for one key of the first example \<open>d0\<close>.
\<close>

definition stack_item :: "'a NumpyBatch list \<Rightarrow> 'a NumpyBatch \<Rightarrow> batch_key \<Rightarrow> error + 'a item" where
  "stack_item dict_list d0 batch_key =
     (if batch_key = BatchKey ''nwp'' then
        (case batch_get d0 (BatchKey ''nwp'') of
           Inl e \<Rightarrow> Inl e
         | Inr (Field _ _) \<Rightarrow> Inl AttributeError
         | Inr (Nwp srcs0) \<Rightarrow>
             (case srcs0 of
                [] \<Rightarrow> Inl IndexError
              | (_, fields0) # _ \<Rightarrow>
                  (case traverse
                          (\<lambda>nwp_source.
                             case traverse
                                    (\<lambda>nwp_batch_key.
                                       case traverse (\<lambda>d. nwp_get d nwp_source nwp_batch_key) dict_list of
                                         Inl e \<Rightarrow> Inl e
                                       | Inr data_list \<Rightarrow>
                                           (case stack_data_list data_list nwp_batch_key of
                                              Inl e \<Rightarrow> Inl e
                                            | Inr v \<Rightarrow> Inr (nwp_batch_key, v)))
                                    (map fst fields0) of
                               Inl e \<Rightarrow> Inl e
                             | Inr nwp_source_batch \<Rightarrow> Inr (nwp_source, nwp_source_batch))
                          (map fst srcs0) of
                     Inl e \<Rightarrow> Inl e
                   | Inr nwp_batch \<Rightarrow> Inr (Nwp nwp_batch))))
      else
        (case traverse (\<lambda>d. array_get d batch_key) dict_list of
           Inl e \<Rightarrow> Inl e
         | Inr data_list \<Rightarrow>
             (case stack_data_list data_list batch_key of
                Inl e \<Rightarrow> Inl e
              | Inr v \<Rightarrow> Inr (Field batch_key v))))"

definition stack_np_examples_into_batch :: "'a NumpyBatch list \<Rightarrow> error + 'a NumpyBatch" where
  "stack_np_examples_into_batch dict_list =
     (case dict_list of
        [] \<Rightarrow> Inl IndexError
      | d0 # _ \<Rightarrow> traverse (stack_item dict_list d0) (keys d0))"

section \<open>The split engine\<close>

text \<open>
  Lines 106 to 121 of \<open>unstack_np_batch_into_examples\<close>: the batch size is read from
  the first non-constant key; \<open>next\<close> on an exhausted iterator raises \<open>StopIteration\<close>.
\<close>

definition batch_size :: "'a NumpyBatch \<Rightarrow> error + nat" where
  "batch_size batch =
     (case find (\<lambda>x. \<not> key_is_constant x) (keys batch) of
        None \<Rightarrow> Inl StopIteration
      | Some non_constant_key \<Rightarrow>
          if non_constant_key = BatchKey ''nwp'' then
            (case batch_get batch (BatchKey ''nwp'') of
               Inl e \<Rightarrow> Inl e
             | Inr (Field _ _) \<Rightarrow> Inl AttributeError
             | Inr (Nwp srcs) \<Rightarrow>
                 (case srcs of
                    [] \<Rightarrow> Inl StopIteration
                  | (nwp_source, fields) # _ \<Rightarrow>
                      (case find (\<lambda>x. \<not> key_is_constant x) (map fst fields) of
                         None \<Rightarrow> Inl StopIteration
                       | Some non_constant_nwp_key \<Rightarrow>
                           (case nwp_get batch nwp_source non_constant_nwp_key of
                              Inl e \<Rightarrow> Inl e
                            | Inr a \<Rightarrow> shape0 a))))
          else
            (case array_get batch non_constant_key of
               Inl e \<Rightarrow> Inl e
             | Inr a \<Rightarrow> shape0 a))"

text \<open>
  The body of the loop over \<open>batch_keys\<close> for the example of index \<open>i\<close> (lines 127 to
  157). In the NWP branch every field is first indexed with \<open>i\<close> (lines 139 to 141),
  whatever its key, and then extracted. The other branch reads the name \<open>batch_key\<close>,
  which is bound neither in the function (its loop variable is \<open>key\<close>) nor in the
  module, so evaluating it raises \<open>NameError\<close>.
\<close>

definition unstack_item :: "'a NumpyBatch \<Rightarrow> nat \<Rightarrow> batch_key \<Rightarrow> error + 'a item" where
  "unstack_item batch i key =
     (if key = BatchKey ''nwp'' then
        (case batch_get batch (BatchKey ''nwp'') of
           Inl e \<Rightarrow> Inl e
         | Inr (Field _ _) \<Rightarrow> Inl AttributeError
         | Inr (Nwp srcs) \<Rightarrow>
             (case srcs of
                [] \<Rightarrow> Inl IndexError
              | (_, fields0) # _ \<Rightarrow>
                  (case traverse
                          (\<lambda>nwp_source.
                             case traverse
                                    (\<lambda>nwp_batch_key.
                                       case nwp_get batch nwp_source nwp_batch_key of
                                         Inl e \<Rightarrow> Inl e
                                       | Inr a \<Rightarrow>
                                           (case ndarray_getitem a i of
                                              Inl e \<Rightarrow> Inl e
                                            | Inr _ \<Rightarrow>
                                                (case extract_data_from_batch a nwp_batch_key i of
                                                   Inl e \<Rightarrow> Inl e
                                                 | Inr v \<Rightarrow> Inr (nwp_batch_key, v))))
                                    (map fst fields0) of
                               Inl e \<Rightarrow> Inl e
                             | Inr nwp_source_batch \<Rightarrow> Inr (nwp_source, nwp_source_batch))
                          (map fst srcs) of
                     Inl e \<Rightarrow> Inl e
                   | Inr nwp_batch \<Rightarrow> Inr (Nwp nwp_batch))))
      else Inl NameError)"

definition unstack_np_batch_into_examples :: "'a NumpyBatch \<Rightarrow> error + 'a NumpyBatch list" where
  "unstack_np_batch_into_examples batch =
     (case batch_size batch of
        Inl e \<Rightarrow> Inl e
      | Inr n \<Rightarrow> traverse (\<lambda>i. traverse (unstack_item batch i) (keys batch)) [0..<n])"

section \<open>The streaming batchers\<close>

text \<open>
  A datapipe is modelled by the finite list of the elements it yields. Iterating a
  pipe gives the list of the elements yielded and the exception that ended the
  iteration, if any.
\<close>

definition MergeNumpyBatchIterDataPipe_iter ::
    "'a NumpyBatch list list \<Rightarrow> 'a NumpyBatch list \<times> error option" where
  "MergeNumpyBatchIterDataPipe_iter source_datapipe =
     foldr (\<lambda>examples_list (bs, r).
              case stack_np_examples_into_batch examples_list of
                Inl e \<Rightarrow> ([], Some e)
              | Inr b \<Rightarrow> (b # bs, r))
       source_datapipe ([], None)"

record 'a MergeNumpyExamplesToBatchIterDataPipe =
  source_datapipe :: "'a NumpyBatch list"
  n_examples_per_batch :: int

text \<open>\<open>__init__\<close> stores its two arguments and nothing else.\<close>

definition MergeNumpyExamplesToBatchIterDataPipe_init ::
    "'a NumpyBatch list \<Rightarrow> int \<Rightarrow> error + 'a MergeNumpyExamplesToBatchIterDataPipe" where
  "MergeNumpyExamplesToBatchIterDataPipe_init src n =
     Inr \<lparr>source_datapipe = src, n_examples_per_batch = n\<rparr>"

text \<open>
  The loop of \<open>__iter__\<close>: \<open>np_examples\<close> is the buffer, the third argument what the
  source still yields.
\<close>

fun merge_loop ::
    "int \<Rightarrow> 'a NumpyBatch list \<Rightarrow> 'a NumpyBatch list \<Rightarrow> 'a NumpyBatch list \<times> error option" where
  "merge_loop n np_examples [] = ([], None)"
| "merge_loop n np_examples (np_batch # rest) =
     (if int (length (np_examples @ [np_batch])) = n
      then (case stack_np_examples_into_batch (np_examples @ [np_batch]) of
              Inl e \<Rightarrow> ([], Some e)
            | Inr b \<Rightarrow> (case merge_loop n [] rest of (bs, r) \<Rightarrow> (b # bs, r)))
      else merge_loop n (np_examples @ [np_batch]) rest)"

definition MergeNumpyExamplesToBatchIterDataPipe_iter ::
    "'a MergeNumpyExamplesToBatchIterDataPipe \<Rightarrow> 'a NumpyBatch list \<times> error option" where
  "MergeNumpyExamplesToBatchIterDataPipe_iter self =
     merge_loop (n_examples_per_batch self) [] (source_datapipe self)"

text \<open>
  What a generator yields when it evaluates the given results in turn and ends at the
  first exception.
\<close>

fun yield_until_error :: "(error + 'b) list \<Rightarrow> 'b list \<times> error option" where
  "yield_until_error [] = ([], None)"
| "yield_until_error (Inl e # rs) = ([], Some e)"
| "yield_until_error (Inr b # rs) = (case yield_until_error rs of (bs, r) \<Rightarrow> (b # bs, r))"

section \<open>Forward time extension (\<open>transform/numpy/extend_timestamps_to_future.py\<close>)\<close>

text \<open>
  Durations are whole numbers of a time unit and the float64 values of the arrays are
  idealised as reals. \<open>int(a / b)\<close> truncates the quotient towards zero.
\<close>

definition int_truediv :: "int \<Rightarrow> int \<Rightarrow> error + int" where
  "int_truediv a b =
     (if b = 0 then Inl ZeroDivisionError else Inr (sgn a * sgn b * (\<bar>a\<bar> div \<bar>b\<bar>)))"

record 'a ExtendTimestepsToFutureIterDataPipe =
  source_dp :: "'a NumpyBatch list"
  forecast_duration :: int
  sample_period_duration :: int
  num_future_timesteps :: int

definition ExtendTimestepsToFutureIterDataPipe_init ::
    "'a NumpyBatch list \<Rightarrow> int \<Rightarrow> int \<Rightarrow> error + 'a ExtendTimestepsToFutureIterDataPipe" where
  "ExtendTimestepsToFutureIterDataPipe_init src forecast sample_period =
     (case int_truediv forecast sample_period of
        Inl e \<Rightarrow> Inl e
      | Inr n \<Rightarrow>
          Inr \<lparr>source_dp = src, forecast_duration = forecast,
               sample_period_duration = sample_period, num_future_timesteps = n\<rparr>)"

text \<open>Elementwise arithmetic on arrays of one shape.\<close>

definition nd_sub :: "real ndarray \<Rightarrow> real ndarray \<Rightarrow> real ndarray" where
  "nd_sub a b = NDArray (shape a) (map2 (-) (data a) (data b))"

definition nd_add :: "real ndarray \<Rightarrow> real ndarray \<Rightarrow> real ndarray" where
  "nd_add a b = NDArray (shape a) (map2 (+) (data a) (data b))"

definition nd_abs :: "real ndarray \<Rightarrow> real ndarray" where
  "nd_abs a = NDArray (shape a) (map abs (data a))"

text \<open>\<open>list(a)\<close>: the slices along the leading axis; a 0-d array cannot be iterated.\<close>

definition ndarray_list :: "'a ndarray \<Rightarrow> error + 'a ndarray list" where
  "ndarray_list a =
     (case shape a of
        [] \<Rightarrow> Inl TypeError
      | n # s \<Rightarrow>
          Inr (map (\<lambda>i. NDArray s (take (prod_list s) (drop (i * prod_list s) (data a))))
                 [0..<n]))"

text \<open>
  The loop over \<open>range(num_future_timesteps)\<close>; the list \<open>times\<close> holds at least two entries
  when it runs.
\<close>

fun append_future :: "nat \<Rightarrow> real ndarray \<Rightarrow> real ndarray list \<Rightarrow> real ndarray list" where
  "append_future 0 timestep_diff times_list = times_list"
| "append_future (Suc k) timestep_diff times_list =
     append_future k timestep_diff (times_list @ [nd_add (last times_list) timestep_diff])"

text \<open>The body of the loop over \<open>all_time_dims\<close> for one array (lines 27 to 33).\<close>

definition extend_time_dim :: "int \<Rightarrow> real ndarray \<Rightarrow> error + real ndarray" where
  "extend_time_dim num a =
     (case ndarray_list a of
        Inl e \<Rightarrow> Inl e
      | Inr times_list \<Rightarrow>
          if length times_list < 2 then Inl IndexError
          else
            (let timestep_diff =
                   nd_abs (nd_sub (last times_list) (times_list ! (length times_list - 2)));
                 extended = append_future (nat num) timestep_diff times_list
             in Inr (NDArray (length extended # tl (shape a)) (concat (map data extended)))))"

text \<open>\<open>d[k] = a\<close> and \<open>d.update(...)\<close> on a batch.\<close>

fun batch_set :: "batch_key \<Rightarrow> 'a ndarray \<Rightarrow> 'a NumpyBatch \<Rightarrow> 'a NumpyBatch" where
  "batch_set k a [] = [Field k a]"
| "batch_set k a (e # d) = (if item_key e = k then Field k a # d else e # batch_set k a d)"

definition batch_update :: "'a NumpyBatch \<Rightarrow> (batch_key \<times> 'a ndarray) list \<Rightarrow> 'a NumpyBatch" where
  "batch_update d kvs = foldl (\<lambda>d (k, a). batch_set k a d) d kvs"

text \<open>
  The items of a batch whose key name ends with \<open>time_utc\<close>. The name of
  \<open>BatchKey.nwp\<close> does not, so all of them are arrays.
\<close>

fun time_items :: "'a NumpyBatch \<Rightarrow> (batch_key \<times> 'a ndarray) list" where
  "time_items [] = []"
| "time_items (Field k a # d) =
     (if endswith (name k) ''time_utc'' then (k, a) # time_items d else time_items d)"
| "time_items (Nwp srcs # d) = time_items d"

text \<open>The body of the loop of \<open>__iter__\<close> for one batch.\<close>

definition extend_np_batch :: "int \<Rightarrow> real NumpyBatch \<Rightarrow> error + real NumpyBatch" where
  "extend_np_batch num np_batch =
     (case traverse
             (\<lambda>(time_dim_key, a).
                case extend_time_dim num a of
                  Inl e \<Rightarrow> Inl e
                | Inr times_list \<Rightarrow> Inr (time_dim_key, times_list))
             (time_items np_batch) of
        Inl e \<Rightarrow> Inl e
      | Inr all_time_dims \<Rightarrow> Inr (batch_update np_batch all_time_dims))"

definition ExtendTimestepsToFutureIterDataPipe_iter ::
    "real ExtendTimestepsToFutureIterDataPipe \<Rightarrow> real NumpyBatch list \<times> error option" where
  "ExtendTimestepsToFutureIterDataPipe_iter self =
     yield_until_error (map (extend_np_batch (num_future_timesteps self)) (source_dp self))"

section \<open>The duplicate stack function of \<open>utils/utils.py\<close>\<close>

text \<open>
  \<open>utils.stack_np_examples_into_batch\<close> knows no nested item: its examples map keys to
  arrays.
\<close>

definition utils_stack_np_examples_into_batch ::
    "(batch_key \<times> 'a ndarray) list list \<Rightarrow> error + (batch_key \<times> 'a ndarray) list" where
  "utils_stack_np_examples_into_batch np_examples =
     (case np_examples of
        [] \<Rightarrow> Inl IndexError
      | d0 # _ \<Rightarrow>
          traverse
            (\<lambda>batch_key.
               if endswith (name batch_key) ''t0_idx'' \<or> batch_key = BatchKey ''nwp_channel_names''
               then (case dict_get d0 batch_key of
                       Inl e \<Rightarrow> Inl e
                     | Inr v \<Rightarrow> Inr (batch_key, v))
               else (case traverse (\<lambda>np_example. dict_get np_example batch_key) np_examples of
                       Inl e \<Rightarrow> Inl e
                     | Inr examples_for_key \<Rightarrow>
                         (case np_stack examples_for_key of
                            Inl e \<Rightarrow> Inl e
                          | Inr v \<Rightarrow> Inr (batch_key, v))))
            (map fst d0))"

text \<open>An example of arrays only, as an example of the batch module.\<close>

definition as_NumpyBatch :: "(batch_key \<times> 'a ndarray) list \<Rightarrow> 'a NumpyBatch" where
  "as_NumpyBatch d = map (\<lambda>(k, a). Field k a) d"

section \<open>Reference definitions for the statements\<close>

text \<open>
  The forward extension as the specification words it: the timestamps followed by
  \<open>step_count\<close> new ones, the \<open>j\<close>-th being the last timestamp plus \<open>j\<close> times the
  absolute difference of the last two.
\<close>

definition spec_extended_times :: "nat \<Rightarrow> real list \<Rightarrow> real list" where
  "spec_extended_times step_count ts =
     ts @ map (\<lambda>j. last ts + real (Suc j) * \<bar>last ts - ts ! (length ts - 2)\<bar>) [0..<step_count]"

fun spec_extend_item :: "nat \<Rightarrow> real item \<Rightarrow> real item" where
  "spec_extend_item step_count (Field k a) =
     (if endswith (name k) ''time_utc''
      then Field k (NDArray [length (data a) + step_count] (spec_extended_times step_count (data a)))
      else Field k a)"
| "spec_extend_item step_count (Nwp srcs) = Nwp srcs"

text \<open>A field of timestamps: a one-dimensional array of at least two entries.\<close>

fun time_series_ok :: "'a item \<Rightarrow> bool" where
  "time_series_ok (Field k a) =
     (if endswith (name k) ''time_utc''
      then shape a = [length (data a)] \<and> 2 \<le> length (data a)
      else True)"
| "time_series_ok (Nwp srcs) = True"

section \<open>Theorems\<close>

subsection \<open>Stacking an empty sequence\<close>

text \<open>
  C7 (amended). Stacking an empty sequence of examples fails: reading element 0 of the
  empty sequence raises the built-in \<open>IndexError\<close>. The code has no dedicated
  empty-input error.
\<close>

theorem stack_empty_IndexError:
  "stack_np_examples_into_batch ([] :: 'a NumpyBatch list) = Inl IndexError"
  by (simp add: stack_np_examples_into_batch_def)

text \<open>
  C7, as stated, fails: the exception raised on the empty sequence is an \<open>IndexError\<close>,
  not an \<open>EmptyInputError\<close>.
\<close>

theorem stack_empty_not_EmptyInputError:
  "raised (stack_np_examples_into_batch ([] :: int NumpyBatch list)) = Some ''IndexError''
   \<and> raised (stack_np_examples_into_batch ([] :: int NumpyBatch list)) \<noteq> Some ''EmptyInputError''"
  by (simp add: stack_np_examples_into_batch_def)

subsection \<open>The split engine on primary fields\<close>

text \<open>
  C1 (defect). Stacking the single example \<open>{BatchKey.pv: array([1])}\<close> gives the batch
  \<open>{BatchKey.pv: array([[1]])}\<close>, and splitting that batch raises \<open>NameError\<close> instead of
  returning the example: the branch for a primary field reads the unbound name
  \<open>batch_key\<close>.
\<close>

theorem round_trip_primary_field_NameError:
  "stack_np_examples_into_batch [[Field (BatchKey ''pv'') (NDArray [1] [1::int])]]
     = Inr [Field (BatchKey ''pv'') (NDArray [1, 1] [1])]
   \<and> unstack_np_batch_into_examples [Field (BatchKey ''pv'') (NDArray [1, 1] [1::int])]
     = Inl NameError"
  by code_simp

text \<open>
  C2 (defect). Two examples whose constant field \<open>pv_t0_idx\<close> differs (5 and 7) stack
  to a batch that holds the first example's value 5; splitting that batch raises
  \<open>NameError\<close>, so no example is recovered.
\<close>

theorem constant_key_split_NameError:
  "stack_np_examples_into_batch
     [[Field (BatchKey ''pv'') (NDArray [1] [1::int]),
       Field (BatchKey ''pv_t0_idx'') (NDArray [] [5])],
      [Field (BatchKey ''pv'') (NDArray [1] [2]),
       Field (BatchKey ''pv_t0_idx'') (NDArray [] [7])]]
     = Inr [Field (BatchKey ''pv'') (NDArray [2, 1] [1, 2]),
            Field (BatchKey ''pv_t0_idx'') (NDArray [] [5])]
   \<and> unstack_np_batch_into_examples
       [Field (BatchKey ''pv'') (NDArray [2, 1] [1, 2::int]),
        Field (BatchKey ''pv_t0_idx'') (NDArray [] [5])]
     = Inl NameError"
  by code_simp

subsection \<open>The fixed-size accumulating batcher\<close>

lemma merge_loop_nonpositive:
  "n \<le> 0 \<Longrightarrow> merge_loop n np_examples xs = ([], None)"
  by (induction xs arbitrary: np_examples) simp_all

lemma yield_until_error_Inr: "yield_until_error (map Inr xs) = (xs, None)"
  by (induction xs) simp_all







text \<open>
  C9 (amended). Constructing the accumulating batcher never fails, whatever
  \<open>n_examples_per_batch\<close> is: \<open>__init__\<close> stores its arguments unchecked. With a
  non-positive \<open>n_examples_per_batch\<close> the pipe reads its whole source and yields
  nothing, since the buffer length never equals it.
\<close>

theorem construction_never_validates:
  "MergeNumpyExamplesToBatchIterDataPipe_init src n
     = Inr \<lparr>source_datapipe = src, n_examples_per_batch = n\<rparr>
   \<and> (n \<le> 0 \<longrightarrow>
        MergeNumpyExamplesToBatchIterDataPipe_iter
          \<lparr>source_datapipe = src, n_examples_per_batch = n\<rparr> = ([], None))"
  by (simp add: MergeNumpyExamplesToBatchIterDataPipe_init_def
        MergeNumpyExamplesToBatchIterDataPipe_iter_def merge_loop_nonpositive)

theorem construction_never_validates_witness:
  "(0::int) \<le> 0
   \<and> MergeNumpyExamplesToBatchIterDataPipe_init
        [[Field (BatchKey ''pv'') (NDArray [1] [1::int])]] 0
      = Inr \<lparr>source_datapipe = [[Field (BatchKey ''pv'') (NDArray [1] [1])]],
              n_examples_per_batch = 0\<rparr>
   \<and> MergeNumpyExamplesToBatchIterDataPipe_iter
        \<lparr>source_datapipe = [[Field (BatchKey ''pv'') (NDArray [1] [1::int])]],
         n_examples_per_batch = 0\<rparr> = ([], None)"
  using construction_never_validates
          [of "[[Field (BatchKey ''pv'') (NDArray [1] [1::int])]]" 0]
  by simp

text \<open>
  C9, as stated, fails: construction with \<open>n_examples_per_batch = 0\<close> or \<open>-3\<close> raises
  nothing.
\<close>

theorem construction_with_nonpositive_size_succeeds:
  "raised (MergeNumpyExamplesToBatchIterDataPipe_init ([] :: int NumpyBatch list) 0) = None
   \<and> raised (MergeNumpyExamplesToBatchIterDataPipe_init ([] :: int NumpyBatch list) (- 3)) = None"
  by (simp add: MergeNumpyExamplesToBatchIterDataPipe_init_def)

end
